theory Spec2Isabelle
  imports Main "HOL-Library.Word" "HOL-Library.Sublist"
begin

section \<open>The database interfaces of gitdb/db/interface.py\<close>

text \<open>
  The module declares the interfaces of an object database (\<open>ObjectDBR\<close>, \<open>ObjectDBW\<close>,
  \<open>CachingDB\<close>, ...) and defines three small concrete types (\<open>RefSpec\<close>, \<open>PushInfo\<close>,
  \<open>FetchInfo\<close>). Exceptions are values of \<open>error\<close>; a call that may raise returns
  \<open>error + 'a\<close> with \<open>Inl\<close> for the exception. Python's \<open>None\<close> is \<open>None\<close> of an option type.
\<close>

datatype error =
    NotImplementedError
  | AttributeError
  | ValueError
  | TypeError
  | BadObject
  | AmbiguousObjectName

type_synonym 'a result = "error + 'a"

subsection \<open>RefSpec\<close>

text \<open>
  \<open>__slots__ = ('source', 'destination', 'force')\<close>: an instance has exactly these three
  attributes. Source and destination are reference names or instances of a type \<open>'r\<close>, or
  \<open>None\<close>; the force flag is only ever tested for truth.
\<close>

record 'r RefSpec =
  source :: "'r option"
  destination :: "'r option"
  force :: bool

text \<open>
  \<open>__init__\<close> stores the three values and then raises \<open>ValueError\<close> when the destination is
  \<open>None\<close>; the half-built instance is not returned in that case.
\<close>

definition RefSpec_init :: "'r option \<Rightarrow> 'r option \<Rightarrow> bool \<Rightarrow> 'r RefSpec result" where
  "RefSpec_init src dst frc =
     (let self = \<lparr>source = src, destination = dst, force = frc\<rparr>
      in if destination self = None then Inl ValueError else Inr self)"






definition delete_destination :: "'r RefSpec \<Rightarrow> bool" where
  "delete_destination self = (source self = None)"

subsection \<open>PushInfo and FetchInfo\<close>

text \<open>
  Both classes take their flag constants from a list comprehension over \<open>range(n)\<close>,
  \<open>[1 << x for x in range(n)]\<close>, unpacked in order into the class attributes. Python
  integers are unbounded, so the values are of type \<open>int\<close>.
\<close>

definition PushInfo_flags :: "int list" where
  "PushInfo_flags = map (\<lambda>x. push_bit x 1) [0..<11]"

definition PushInfo_NEW_TAG :: int where "PushInfo_NEW_TAG = PushInfo_flags ! 0"
definition PushInfo_NEW_HEAD :: int where "PushInfo_NEW_HEAD = PushInfo_flags ! 1"
definition PushInfo_NO_MATCH :: int where "PushInfo_NO_MATCH = PushInfo_flags ! 2"
definition PushInfo_REJECTED :: int where "PushInfo_REJECTED = PushInfo_flags ! 3"
definition PushInfo_REMOTE_REJECTED :: int where "PushInfo_REMOTE_REJECTED = PushInfo_flags ! 4"
definition PushInfo_REMOTE_FAILURE :: int where "PushInfo_REMOTE_FAILURE = PushInfo_flags ! 5"
definition PushInfo_DELETED :: int where "PushInfo_DELETED = PushInfo_flags ! 6"
definition PushInfo_FORCED_UPDATE :: int where "PushInfo_FORCED_UPDATE = PushInfo_flags ! 7"
definition PushInfo_FAST_FORWARD :: int where "PushInfo_FAST_FORWARD = PushInfo_flags ! 8"
definition PushInfo_UP_TO_DATE :: int where "PushInfo_UP_TO_DATE = PushInfo_flags ! 9"
definition PushInfo_ERROR :: int where "PushInfo_ERROR = PushInfo_flags ! 10"

text \<open>The eleven flag attributes of \<open>PushInfo\<close>, in the order of the assignment.\<close>

definition PushInfo_members :: "int list" where
  "PushInfo_members =
     [PushInfo_NEW_TAG, PushInfo_NEW_HEAD, PushInfo_NO_MATCH, PushInfo_REJECTED,
      PushInfo_REMOTE_REJECTED, PushInfo_REMOTE_FAILURE, PushInfo_DELETED,
      PushInfo_FORCED_UPDATE, PushInfo_FAST_FORWARD, PushInfo_UP_TO_DATE, PushInfo_ERROR]"

definition FetchInfo_flags :: "int list" where
  "FetchInfo_flags = map (\<lambda>x. push_bit x 1) [0..<8]"

definition FetchInfo_NEW_TAG :: int where "FetchInfo_NEW_TAG = FetchInfo_flags ! 0"
definition FetchInfo_NEW_HEAD :: int where "FetchInfo_NEW_HEAD = FetchInfo_flags ! 1"
definition FetchInfo_HEAD_UPTODATE :: int where "FetchInfo_HEAD_UPTODATE = FetchInfo_flags ! 2"
definition FetchInfo_TAG_UPDATE :: int where "FetchInfo_TAG_UPDATE = FetchInfo_flags ! 3"
definition FetchInfo_REJECTED :: int where "FetchInfo_REJECTED = FetchInfo_flags ! 4"
definition FetchInfo_FORCED_UPDATE :: int where "FetchInfo_FORCED_UPDATE = FetchInfo_flags ! 5"
definition FetchInfo_FAST_FORWARD :: int where "FetchInfo_FAST_FORWARD = FetchInfo_flags ! 6"
definition FetchInfo_ERROR :: int where "FetchInfo_ERROR = FetchInfo_flags ! 7"

text \<open>The eight flag attributes of \<open>FetchInfo\<close>, in the order of the assignment.\<close>

definition FetchInfo_members :: "int list" where
  "FetchInfo_members =
     [FetchInfo_NEW_TAG, FetchInfo_NEW_HEAD, FetchInfo_HEAD_UPTODATE, FetchInfo_TAG_UPDATE,
      FetchInfo_REJECTED, FetchInfo_FORCED_UPDATE, FetchInfo_FAST_FORWARD, FetchInfo_ERROR]"

subsection \<open>Instances of classes that declare \<open>__slots__\<close>\<close>

text \<open>
  What a class lets its instances store. A class statement with a \<open>__slots__\<close> declaration
  adds the declared names to the slots of its base and adds no instance dictionary; a class
  statement without one gives its instances a dictionary. \<open>object\<close> has neither slots nor
  a dictionary. All three classes of the module derive from \<open>object\<close> directly.
\<close>

record layout =
  slot_names :: "string list"
  has_dict :: bool

definition object_layout :: layout where
  "object_layout = \<lparr>slot_names = [], has_dict = False\<rparr>"

definition class_layout :: "layout \<Rightarrow> string list option \<Rightarrow> layout" where
  "class_layout base slots_decl =
     (case slots_decl of
        None \<Rightarrow> base\<lparr>has_dict := True\<rparr>
      | Some names \<Rightarrow> base\<lparr>slot_names := slot_names base @ names\<rparr>)"

definition RefSpec_layout :: layout where
  "RefSpec_layout = class_layout object_layout (Some [''source'', ''destination'', ''force''])"

definition PushInfo_layout :: layout where
  "PushInfo_layout = class_layout object_layout (Some [])"

definition FetchInfo_layout :: layout where
  "FetchInfo_layout = class_layout object_layout (Some [])"

text \<open>
  The attributes of an instance are a finite map from names to values. An assignment
  \<open>obj.name = v\<close> stores the value when the name is a slot or the instance has a
  dictionary, and raises \<open>AttributeError\<close> otherwise (also when the name is a plain class
  attribute such as a flag constant). The names meant are those of data attributes; the
  special attribute \<open>__class__\<close>, which belongs to every object and is no instance
  attribute, is outside this model.
\<close>

type_synonym 'v attributes = "string \<rightharpoonup> 'v"

definition setattr :: "layout \<Rightarrow> 'v attributes \<Rightarrow> string \<Rightarrow> 'v \<Rightarrow> 'v attributes result" where
  "setattr cls obj name v =
     (if name \<in> set (slot_names cls) \<or> has_dict cls then Inr (obj(name \<mapsto> v))
      else Inl AttributeError)"

text \<open>The members that the docstrings of the two classes document.\<close>

definition PushInfo_documented :: "string list" where
  "PushInfo_documented =
     [''flags'', ''local_ref'', ''remote_ref_string'', ''remote_ref'', ''old_commit'', ''summary'']"

definition FetchInfo_documented :: "string list" where
  "FetchInfo_documented = [''ref'', ''flags'', ''note'', ''old_commit'']"

subsection \<open>ObjectDBR\<close>

text \<open>
  Objects are identified by their 20 byte binary sha. The query methods of the base class
  raise \<open>NotImplementedError\<close>; their arguments are not inspected. The body of
  \<open>partial_to_complete_sha\<close> alone consists of its docstring only, so a call returns
  \<open>None\<close>.
\<close>

type_synonym byte = "8 word"
type_synonym sha = "byte list"

definition ObjectDBR_has_object :: "sha \<Rightarrow> bool result" where
  "ObjectDBR_has_object sha = Inl NotImplementedError"

definition ObjectDBR_has_object_async :: "'reader \<Rightarrow> 'out result" where
  "ObjectDBR_has_object_async reader = Inl NotImplementedError"

definition ObjectDBR_info :: "sha \<Rightarrow> 'oinfo result" where
  "ObjectDBR_info sha = Inl NotImplementedError"

definition ObjectDBR_info_async :: "'reader \<Rightarrow> 'out result" where
  "ObjectDBR_info_async reader = Inl NotImplementedError"

definition ObjectDBR_stream :: "sha \<Rightarrow> 'ostream result" where
  "ObjectDBR_stream sha = Inl NotImplementedError"

definition ObjectDBR_stream_async :: "'reader \<Rightarrow> 'out result" where
  "ObjectDBR_stream_async reader = Inl NotImplementedError"

definition ObjectDBR_size :: "int result" where
  "ObjectDBR_size = Inl NotImplementedError"

definition ObjectDBR_sha_iter :: "sha list result" where
  "ObjectDBR_sha_iter = Inl NotImplementedError"

definition ObjectDBR_partial_to_complete_sha_hex :: "string \<Rightarrow> sha result" where
  "ObjectDBR_partial_to_complete_sha_hex partial_hexsha = Inl NotImplementedError"

definition ObjectDBR_partial_to_complete_sha :: "byte list \<Rightarrow> int \<Rightarrow> sha option result" where
  "ObjectDBR_partial_to_complete_sha partial_binsha canonical_length = Inr None"

text \<open>
  \<open>__contains__\<close> calls \<open>self.has_obj(sha)\<close>. The attribute is looked up on the instance:
  first among the methods its own class defines (the subclass namespace \<open>sub\<close>, a parameter),
  then among those of \<open>ObjectDBR\<close>. The names \<open>ObjectDBR\<close> defines are listed in
  \<open>ObjectDBR_names\<close>; of these only \<open>has_object\<close> is a method from a sha to a truth value,
  which is the kind of method the lookup below is about.
\<close>

type_synonym sha_method = "sha \<Rightarrow> bool result"
type_synonym namespace = "string \<rightharpoonup> sha_method"

definition ObjectDBR_names :: "string list" where
  "ObjectDBR_names =
     [''__contains__'', ''has_object'', ''has_object_async'', ''info'', ''info_async'',
      ''stream'', ''stream_async'', ''size'', ''sha_iter'', ''partial_to_complete_sha_hex'',
      ''partial_to_complete_sha'']"

definition ObjectDBR_namespace :: namespace where
  "ObjectDBR_namespace = [''has_object'' \<mapsto> ObjectDBR_has_object]"

definition getattr :: "namespace \<Rightarrow> string \<Rightarrow> sha_method result" where
  "getattr sub name =
     (case sub name of
        Some m \<Rightarrow> Inr m
      | None \<Rightarrow> (case ObjectDBR_namespace name of
                   Some m \<Rightarrow> Inr m
                 | None \<Rightarrow> Inl AttributeError))"

definition ObjectDBR_contains :: "namespace \<Rightarrow> sha \<Rightarrow> bool result" where
  "ObjectDBR_contains self sha =
     (case getattr self ''has_obj'' of Inl e \<Rightarrow> Inl e | Inr m \<Rightarrow> m sha)"

text \<open>The call \<open>db.has_object(sha)\<close> on an instance, for comparison.\<close>

definition call_has_object :: "namespace \<Rightarrow> sha \<Rightarrow> bool result" where
  "call_has_object self sha =
     (case getattr self ''has_object'' of Inl e \<Rightarrow> Inl e | Inr m \<Rightarrow> m sha)"

text \<open>
  A database as the interface asks for it: a subclass that implements \<open>has_object\<close> over
  the digests it stores and defines nothing else.
\<close>

definition stored_db :: "sha list \<Rightarrow> namespace" where
  "stored_db shas = [''has_object'' \<mapsto> (\<lambda>sha. Inr (sha \<in> set shas))]"

subsection \<open>CachingDB\<close>

text \<open>
  The body of \<open>update_cache\<close> is its docstring: the call touches nothing of the instance
  and returns \<open>None\<close>. The result is the returned value together with the instance.
\<close>

definition CachingDB_update_cache :: "'db \<Rightarrow> bool \<Rightarrow> bool option \<times> 'db" where
  "CachingDB_update_cache self frc = (None, self)"

section \<open>The contracts that the interface declares for its implementations\<close>

text \<open>
  \<open>ObjectDBR.partial_to_complete_sha_hex\<close> and \<open>ObjectDBW.set_ostream\<close> raise
  \<open>NotImplementedError\<close> in this module, with the message that they are to be
  implemented in a subclass; \<open>partial_to_complete_sha\<close> is declared beside the former, and
  \<open>CachingDB.update_cache\<close> is declared by its docstring in a module that keeps no cache
  anywhere. The code that resolves a partial digest, installs a stream or refreshes a
  cache belongs to the subclasses of the repository, which this module does not contain.
  The definitions of this section are therefore written from the specification, next to
  the docstrings of the declarations.
\<close>

subsection \<open>Partial digest resolution\<close>

text \<open>
  Modelled from the spec: the hexadecimal representation of a digest, of which a partial
  digest is a prefix (two lower-case digits per byte, high nibble first). The module
  has no conversion function of its own.
\<close>

definition hex_digits :: string where
  "hex_digits = ''0123456789abcdef''"

definition bin_to_hex :: "byte list \<Rightarrow> string" where
  "bin_to_hex bs =
     concat (map (\<lambda>b. [hex_digits ! (unat b div 16), hex_digits ! (unat b mod 16)]) bs)"

text \<open>
  Modelled from the spec: the scan of \<open>resolve_partial\<close> over the candidate key space, the
  digests of the backend in the order of their enumeration. It keeps the digests whose
  hexadecimal representation starts with the given prefix. The scanning code of the
  implementations is missing.
\<close>

fun scan_prefix :: "string \<Rightarrow> sha list \<Rightarrow> sha list" where
  "scan_prefix partial_hex [] = []"
| "scan_prefix partial_hex (d # ds) =
     (if prefix partial_hex (bin_to_hex d) then d # scan_prefix partial_hex ds
      else scan_prefix partial_hex ds)"

text \<open>
  Modelled from the spec: \<open>resolve_partial\<close> for a hexadecimal prefix, the contract of the
  missing implementations of \<open>partial_to_complete_sha_hex\<close>. It fails with \<open>BadObject\<close> if
  the scan finds no digest, with \<open>AmbiguousObjectName\<close> if more than one digest shares the
  prefix, and returns the digest otherwise.
\<close>

definition resolve_partial_hex :: "sha list \<Rightarrow> string \<Rightarrow> sha result" where
  "resolve_partial_hex keys partial_hex =
     (case remdups (scan_prefix partial_hex keys) of
        [] \<Rightarrow> Inl BadObject
      | [d] \<Rightarrow> Inr d
      | d # d' # ds \<Rightarrow> Inl AmbiguousObjectName)"

text \<open>
  Modelled from the spec: \<open>resolve_partial\<close> for a binary partial digest, the contract of
  the missing implementations of \<open>partial_to_complete_sha\<close>. The binary form cannot tell
  whether its last nibble is present, so the intended hexadecimal length comes with it
  and cuts the hexadecimal form of the bytes to the prefix that was meant.
\<close>

definition resolve_partial :: "sha list \<Rightarrow> byte list \<Rightarrow> nat \<Rightarrow> sha result" where
  "resolve_partial keys partial_binsha canonical_length =
     resolve_partial_hex keys (take canonical_length (bin_to_hex partial_binsha))"

text \<open>
  The digests of the key space that share a hexadecimal prefix, as a set: the measure of
  "matches exactly one", "matches none" and "matches two or more".
\<close>

definition matching :: "sha list \<Rightarrow> string \<Rightarrow> sha set" where
  "matching keys partial_hex = {d \<in> set keys. prefix partial_hex (bin_to_hex d)}"

subsection \<open>The output sink of the write contract\<close>

text \<open>
  Modelled from the spec: a sink, known by the operations it offers; the required
  capability is \<open>write\<close>. The module has no stream type of its own.
\<close>

record sink =
  sink_name :: string
  operations :: "string list"

text \<open>
  The specification calls the error for a missing capability \<open>CapabilityError\<close>; the
  docstring of \<open>set_ostream\<close> documents it as \<open>TypeError\<close>, which is the class meant.
\<close>

abbreviation CapabilityError :: error where
  "CapabilityError \<equiv> TypeError"

text \<open>
  Modelled from the spec: \<open>set_output_sink\<close>, the contract of the missing implementations
  of \<open>ObjectDBW.set_ostream\<close>. The state of the handle is the installed sink, \<open>None\<close> being
  the sentinel for the default of the backend. The call rejects a sink without the
  \<open>write\<close> capability with \<open>CapabilityError\<close>; otherwise it installs the argument and
  returns the previously installed sink, paired here with the new state of the handle.
\<close>

definition set_output_sink :: "sink option \<Rightarrow> sink option \<Rightarrow> (sink option \<times> sink option) result" where
  "set_output_sink installed sink_or_default =
     (case sink_or_default of
        None \<Rightarrow> Inr (installed, None)
      | Some s \<Rightarrow>
          if ''write'' \<in> set (operations s) then Inr (installed, Some s)
          else Inl CapabilityError)"

text \<open>The declaration in the module itself, for every argument.\<close>

definition ObjectDBW_set_ostream :: "'stream option \<Rightarrow> 'stream option result" where
  "ObjectDBW_set_ostream stream = Inl NotImplementedError"

subsection \<open>Refreshing the cache of a backend\<close>

text \<open>
  Modelled from the spec: a backend that maintains an internal index over its underlying
  data (for instance a manifest of which digests exist). The storage is what a re-scan
  reads; the index is the internal caching state. The module has no such backend.
\<close>

record ('s, 'i) caching_backend =
  storage :: 's
  index :: 'i

text \<open>
  Modelled from the spec: \<open>refresh(force=False) -> bool\<close>, the contract of the missing
  implementations of \<open>CachingDB.update_cache\<close>. Without \<open>force\<close> the backend may skip the
  work if it believes that nothing changed, by a test of its own (\<open>believes_unchanged\<close>);
  \<open>force\<close> mandates the re-scan (\<open>scan\<close>) of the storage. The returned value signals
  whether the internal state actually changed; it comes with the backend after the call.
\<close>

definition refresh ::
  "(('s, 'i) caching_backend \<Rightarrow> bool) \<Rightarrow> ('s \<Rightarrow> 'i) \<Rightarrow> bool \<Rightarrow> ('s, 'i) caching_backend
     \<Rightarrow> bool \<times> ('s, 'i) caching_backend" where
  "refresh believes_unchanged scan frc backend =
     (if \<not> frc \<and> believes_unchanged backend then (False, backend)
      else (let idx = scan (storage backend)
            in (idx \<noteq> index backend, backend\<lparr>index := idx\<rparr>)))"

subsection \<open>Sample data\<close>





text \<open>Three 20 byte digests, two of which share the hexadecimal prefix \<open>abc\<close>.\<close>

definition sha_abcd :: sha where
  "sha_abcd = [0xab, 0xcd, 0, 0, 0, 0, 0, 0, 0, 0, 0, 0, 0, 0, 0, 0, 0, 0, 0, 0]"

definition sha_abce :: sha where
  "sha_abce = [0xab, 0xce, 0, 0, 0, 0, 0, 0, 0, 0, 0, 0, 0, 0, 0, 0, 0, 0, 0, 1]"

definition sha_1234 :: sha where
  "sha_1234 = [0x12, 0x34, 0, 0, 0, 0, 0, 0, 0, 0, 0, 0, 0, 0, 0, 0, 0, 0, 0, 2]"

definition sample_keys :: "sha list" where
  "sample_keys = [sha_abcd, sha_abce, sha_1234]"

text \<open>A file-like sink with a \<open>write\<close> operation, and one that can only be read.\<close>

definition file_sink :: sink where
  "file_sink = \<lparr>sink_name = ''file'', operations = [''write'', ''close'']\<rparr>"

definition read_only_sink :: sink where
  "read_only_sink = \<lparr>sink_name = ''input'', operations = [''read'', ''close'']\<rparr>"

text \<open>
  A backend whose storage and index carry a modification stamp with the list of digests;
  it believes that nothing changed when the two stamps agree, and a scan copies the
  storage.
\<close>

definition stamps_agree :: "(nat \<times> sha list, nat \<times> sha list) caching_backend \<Rightarrow> bool" where
  "stamps_agree backend = (fst (storage backend) = fst (index backend))"

definition copy_scan :: "nat \<times> sha list \<Rightarrow> nat \<times> sha list" where
  "copy_scan st = st"

definition stale_backend :: "(nat \<times> sha list, nat \<times> sha list) caching_backend" where
  "stale_backend = \<lparr>storage = (2, [sha_abcd, sha_1234]), index = (1, [sha_abcd])\<rparr>"

definition fresh_backend :: "(nat \<times> sha list, nat \<times> sha list) caching_backend" where
  "fresh_backend =
     \<lparr>storage = (2, [sha_abcd, sha_1234]), index = (2, [sha_abcd, sha_1234])\<rparr>"

section \<open>RefSpec: construction, delete requests, string conversion\<close>

lemma RefSpec_init_Inr:
  "RefSpec_init src dst frc = Inr r \<longleftrightarrow>
     dst \<noteq> None \<and> r = \<lparr>source = src, destination = dst, force = frc\<rparr>"
  by (auto simp: RefSpec_init_def Let_def)

text \<open>
  Claim C3. Constructing a RefSpec with destination \<open>None\<close> raises \<open>ValueError\<close>, whatever
  the source and the force flag are; with any other destination the construction succeeds
  and yields the instance holding the three given values.
\<close>

theorem RefSpec_init_destination:
  "RefSpec_init src None frc = Inl ValueError \<and>
   RefSpec_init src (Some d) frc = Inr \<lparr>source = src, destination = Some d, force = frc\<rparr>"
  by (simp add: RefSpec_init_def Let_def)

text \<open>
  Claim C4. For every successfully constructed RefSpec, \<open>delete_destination()\<close> is true
  if and only if the source given to the constructor is \<open>None\<close>.
\<close>

theorem delete_destination_iff:
  "RefSpec_init src dst frc = Inr r \<Longrightarrow> delete_destination r \<longleftrightarrow> src = None"
  by (auto simp: RefSpec_init_Inr delete_destination_def)

theorem delete_destination_iff_witness:
  "RefSpec_init None (Some ''refs/heads/old'') False
     = Inr \<lparr>source = None, destination = Some ''refs/heads/old'', force = False\<rparr> \<and>
   delete_destination \<lparr>source = None, destination = Some ''refs/heads/old'', force = False\<rparr> \<and>
   RefSpec_init (Some ''master'') (Some ''refs/heads/old'') True
     = Inr \<lparr>source = Some ''master'', destination = Some ''refs/heads/old'', force = True\<rparr> \<and>
   \<not> delete_destination
       \<lparr>source = Some ''master'', destination = Some ''refs/heads/old'', force = True\<rparr>"
proof -
  have a: "RefSpec_init None (Some ''refs/heads/old'') False
     = Inr \<lparr>source = None, destination = Some ''refs/heads/old'', force = False\<rparr>"
    by (simp add: RefSpec_init_def Let_def)
  have b: "RefSpec_init (Some ''master'') (Some ''refs/heads/old'') True
     = Inr \<lparr>source = Some ''master'', destination = Some ''refs/heads/old'', force = True\<rparr>"
    by (simp add: RefSpec_init_def Let_def)
  show ?thesis
    using a b delete_destination_iff [OF a] delete_destination_iff [OF b] by simp
qed







section \<open>Flag constants\<close>

lemma and_push_bit_distinct:
  "i \<noteq> j \<Longrightarrow> and (push_bit i 1) (push_bit j (1::int)) = 0"
  by (rule bit_eqI) (auto simp: bit_and_iff bit_push_bit_iff bit_1_iff bit_exp_iff)

lemma PushInfo_members_flags: "PushInfo_members = PushInfo_flags"
  by (simp add: PushInfo_members_def PushInfo_flags_def PushInfo_NEW_TAG_def
      PushInfo_NEW_HEAD_def PushInfo_NO_MATCH_def PushInfo_REJECTED_def
      PushInfo_REMOTE_REJECTED_def PushInfo_REMOTE_FAILURE_def PushInfo_DELETED_def
      PushInfo_FORCED_UPDATE_def PushInfo_FAST_FORWARD_def PushInfo_UP_TO_DATE_def
      PushInfo_ERROR_def upt_rec)

lemma FetchInfo_members_flags: "FetchInfo_members = FetchInfo_flags"
  by (simp add: FetchInfo_members_def FetchInfo_flags_def FetchInfo_NEW_TAG_def
      FetchInfo_NEW_HEAD_def FetchInfo_HEAD_UPTODATE_def FetchInfo_TAG_UPDATE_def
      FetchInfo_REJECTED_def FetchInfo_FORCED_UPDATE_def FetchInfo_FAST_FORWARD_def
      FetchInfo_ERROR_def upt_rec)

lemma PushInfo_members_values:
  "PushInfo_members = [1, 2, 4, 8, 16, 32, 64, 128, 256, 512, 1024]"
  by (simp add: PushInfo_members_flags PushInfo_flags_def upt_rec)

lemma FetchInfo_members_values:
  "FetchInfo_members = [1, 2, 4, 8, 16, 32, 64, 128]"
  by (simp add: FetchInfo_members_flags FetchInfo_flags_def upt_rec)

lemma flags_and_zero:
  assumes "x \<in> set (map (\<lambda>k. push_bit k (1::int)) [0..<n])"
    and "y \<in> set (map (\<lambda>k. push_bit k (1::int)) [0..<n])"
    and "x \<noteq> y"
  shows "and x y = 0"
proof -
  from assms(1) obtain i where i: "x = push_bit i 1" by auto
  from assms(2) obtain j where j: "y = push_bit j 1" by auto
  from i j assms(3) have "i \<noteq> j" by auto
  then have "and (push_bit i 1) (push_bit j (1::int)) = 0" by (rule and_push_bit_distinct)
  with i j show ?thesis by simp
qed

text \<open>
  Claim C7. The eleven flags of \<open>PushInfo\<close> are the powers of two \<open>2 ^ 0, ..., 2 ^ 10\<close> and
  the eight flags of \<open>FetchInfo\<close> are \<open>2 ^ 0, ..., 2 ^ 7\<close>, each in the order of its
  enumeration; the flags of one class are pairwise distinct, and the bitwise AND of two
  distinct flags of the same class is zero.
\<close>

theorem flags_distinct_powers_of_two:
  "PushInfo_members = map (\<lambda>k. 2 ^ k) [0..<11] \<and>
   FetchInfo_members = map (\<lambda>k. 2 ^ k) [0..<8] \<and>
   distinct PushInfo_members \<and> distinct FetchInfo_members \<and>
   (\<forall>x \<in> set PushInfo_members. \<forall>y \<in> set PushInfo_members. x \<noteq> y \<longrightarrow> and x y = 0) \<and>
   (\<forall>x \<in> set FetchInfo_members. \<forall>y \<in> set FetchInfo_members. x \<noteq> y \<longrightarrow> and x y = 0)"
proof -
  have p: "PushInfo_members = map (\<lambda>k. 2 ^ k) [0..<11]"
    by (simp add: PushInfo_members_values upt_rec)
  have f: "FetchInfo_members = map (\<lambda>k. 2 ^ k) [0..<8]"
    by (simp add: FetchInfo_members_values upt_rec)
  have dp: "distinct PushInfo_members"
    by (simp add: PushInfo_members_values)
  have df: "distinct FetchInfo_members"
    by (simp add: FetchInfo_members_values)
  have ap: "\<forall>x \<in> set PushInfo_members. \<forall>y \<in> set PushInfo_members. x \<noteq> y \<longrightarrow> and x y = 0"
    unfolding PushInfo_members_flags PushInfo_flags_def
    using flags_and_zero [of _ 11] by blast
  have af: "\<forall>x \<in> set FetchInfo_members. \<forall>y \<in> set FetchInfo_members. x \<noteq> y \<longrightarrow> and x y = 0"
    unfolding FetchInfo_members_flags FetchInfo_flags_def
    using flags_and_zero [of _ 8] by blast
  from p f dp df ap af show ?thesis by blast
qed

theorem flags_distinct_powers_of_two_witness:
  "PushInfo_REJECTED \<in> set PushInfo_members \<and> PushInfo_ERROR \<in> set PushInfo_members \<and>
   PushInfo_REJECTED \<noteq> PushInfo_ERROR \<and> and PushInfo_REJECTED PushInfo_ERROR = 0 \<and>
   FetchInfo_NEW_TAG \<in> set FetchInfo_members \<and> FetchInfo_ERROR \<in> set FetchInfo_members \<and>
   FetchInfo_NEW_TAG \<noteq> FetchInfo_ERROR \<and> and FetchInfo_NEW_TAG FetchInfo_ERROR = 0"
proof -
  have m: "PushInfo_REJECTED \<in> set PushInfo_members" "PushInfo_ERROR \<in> set PushInfo_members"
    "FetchInfo_NEW_TAG \<in> set FetchInfo_members" "FetchInfo_ERROR \<in> set FetchInfo_members"
    by (simp_all add: PushInfo_members_def FetchInfo_members_def)
  have n: "PushInfo_REJECTED \<noteq> PushInfo_ERROR" "FetchInfo_NEW_TAG \<noteq> FetchInfo_ERROR"
    by (simp_all add: PushInfo_REJECTED_def PushInfo_ERROR_def PushInfo_flags_def
        FetchInfo_NEW_TAG_def FetchInfo_ERROR_def FetchInfo_flags_def)
  from flags_distinct_powers_of_two m n show ?thesis by blast
qed

section \<open>Instances without attributes\<close>

text \<open>
  Claim C10. \<open>PushInfo\<close> and \<open>FetchInfo\<close> declare empty \<open>__slots__\<close>, so an assignment to
  any attribute of a direct instance, the documented members included, raises
  \<open>AttributeError\<close>. A subclass that does not declare \<open>__slots__\<close> accepts every
  assignment, and \<open>RefSpec\<close>, whose slots are not empty, accepts its three names.
\<close>

theorem slots_empty_no_attributes:
  "setattr PushInfo_layout obj name v = Inl AttributeError \<and>
   setattr FetchInfo_layout obj name v = Inl AttributeError \<and>
   map (\<lambda>n. setattr PushInfo_layout obj n v) PushInfo_documented
     = replicate 6 (Inl AttributeError) \<and>
   map (\<lambda>n. setattr FetchInfo_layout obj n v) FetchInfo_documented
     = replicate 4 (Inl AttributeError) \<and>
   setattr (class_layout PushInfo_layout None) obj name v = Inr (obj(name \<mapsto> v)) \<and>
   setattr (class_layout FetchInfo_layout None) obj name v = Inr (obj(name \<mapsto> v)) \<and>
   map (\<lambda>n. setattr RefSpec_layout obj n v) [''source'', ''destination'', ''force'']
     = [Inr (obj(''source'' \<mapsto> v)), Inr (obj(''destination'' \<mapsto> v)),
        Inr (obj(''force'' \<mapsto> v))]"
  by (simp add: setattr_def PushInfo_layout_def FetchInfo_layout_def RefSpec_layout_def
      class_layout_def object_layout_def PushInfo_documented_def FetchInfo_documented_def
      eval_nat_numeral)

section \<open>The declarations of ObjectDBR and CachingDB\<close>

text \<open>
  Claim C9. The base \<open>ObjectDBR.partial_to_complete_sha\<close> returns \<open>None\<close> for all
  arguments and raises nothing, while every other query method of the base class,
  \<open>partial_to_complete_sha_hex\<close> among them, raises \<open>NotImplementedError\<close>.
\<close>

theorem partial_to_complete_sha_returns_None:
  "ObjectDBR_partial_to_complete_sha partial_binsha canonical_length = Inr None \<and>
   ObjectDBR_partial_to_complete_sha_hex partial_hexsha = Inl NotImplementedError \<and>
   ObjectDBR_has_object sha = Inl NotImplementedError \<and>
   ObjectDBR_has_object_async reader = Inl NotImplementedError \<and>
   ObjectDBR_info sha = Inl NotImplementedError \<and>
   ObjectDBR_info_async reader = Inl NotImplementedError \<and>
   ObjectDBR_stream sha = Inl NotImplementedError \<and>
   ObjectDBR_stream_async reader = Inl NotImplementedError \<and>
   ObjectDBR_size = Inl NotImplementedError \<and>
   ObjectDBR_sha_iter = Inl NotImplementedError"
  by (simp add: ObjectDBR_partial_to_complete_sha_def ObjectDBR_partial_to_complete_sha_hex_def
      ObjectDBR_has_object_def ObjectDBR_has_object_async_def ObjectDBR_info_def
      ObjectDBR_info_async_def ObjectDBR_stream_def ObjectDBR_stream_async_def
      ObjectDBR_size_def ObjectDBR_sha_iter_def)

text \<open>
  Claim C1, as the code has it. \<open>__contains__\<close> asks the instance for an attribute
  \<open>has_obj\<close>, a name that \<open>ObjectDBR\<close> does not define: for a database that implements
  \<open>has_object\<close> over its stored digests, \<open>sha in db\<close> raises \<open>AttributeError\<close> for every
  digest, stored or missing, where \<open>has_object(sha)\<close> returns the truth value.
\<close>

lemma has_obj_not_declared: "''has_obj'' \<notin> set ObjectDBR_names"
  by (simp add: ObjectDBR_names_def)

lemma contains_without_has_obj:
  "self ''has_obj'' = None \<Longrightarrow> ObjectDBR_contains self sha = Inl AttributeError"
  by (simp add: ObjectDBR_contains_def getattr_def ObjectDBR_namespace_def)

theorem contains_raises_AttributeError:
  "ObjectDBR_contains (stored_db shas) sha = Inl AttributeError \<and>
   call_has_object (stored_db shas) sha = Inr (sha \<in> set shas)"
  by (simp add: ObjectDBR_contains_def call_has_object_def getattr_def stored_db_def
      ObjectDBR_namespace_def)

text \<open>
  The declaration of \<open>CachingDB.update_cache\<close> in the module: a call returns \<open>None\<close> for
  either value of \<open>force\<close> and leaves the instance as it was.
\<close>

lemma update_cache_declared:
  "CachingDB_update_cache self frc = (None, self)"
  by (simp add: CachingDB_update_cache_def)

lemma set_ostream_declared:
  "ObjectDBW_set_ostream stream = Inl NotImplementedError"
  by (simp add: ObjectDBW_set_ostream_def)

section \<open>Refreshing a cache\<close>

lemma index_update_differs:
  "(backend\<lparr>index := idx\<rparr> \<noteq> backend) = (idx \<noteq> index backend)"
  by (cases backend) auto

text \<open>
  Claim C5. For every backend, every test of belief and every scan, the refresh returns
  a truth value that is true exactly when the internal caching state after the call
  differs from the state before it. A refresh that is skipped, not being forced while the
  backend believes that nothing changed, returns false and leaves the backend as it was;
  a forced refresh leaves the index that the scan of the storage yields. The storage is
  never touched.
\<close>

theorem refresh_reports_change:
  "fst (refresh believes_unchanged scan frc backend)
     = (index (snd (refresh believes_unchanged scan frc backend)) \<noteq> index backend) \<and>
   fst (refresh believes_unchanged scan frc backend)
     = (snd (refresh believes_unchanged scan frc backend) \<noteq> backend) \<and>
   (\<not> frc \<and> believes_unchanged backend \<longrightarrow>
      refresh believes_unchanged scan frc backend = (False, backend)) \<and>
   (frc \<longrightarrow>
      index (snd (refresh believes_unchanged scan frc backend)) = scan (storage backend)) \<and>
   storage (snd (refresh believes_unchanged scan frc backend)) = storage backend"
  by (simp add: refresh_def Let_def index_update_differs)

theorem refresh_reports_change_witness:
  "stamps_agree fresh_backend \<and>
   refresh stamps_agree copy_scan False fresh_backend = (False, fresh_backend) \<and>
   \<not> fst (refresh stamps_agree copy_scan True fresh_backend) \<and>
   index (snd (refresh stamps_agree copy_scan True stale_backend))
     = copy_scan (storage stale_backend) \<and>
   index (snd (refresh stamps_agree copy_scan True stale_backend)) \<noteq> index stale_backend \<and>
   fst (refresh stamps_agree copy_scan True stale_backend)"
proof -
  have f: "stamps_agree fresh_backend"
    by (simp add: stamps_agree_def fresh_backend_def)
  have fi: "copy_scan (storage fresh_backend) = index fresh_backend"
    by (simp add: copy_scan_def fresh_backend_def)
  have si: "copy_scan (storage stale_backend) \<noteq> index stale_backend"
    by (simp add: copy_scan_def stale_backend_def)
  from refresh_reports_change [of stamps_agree copy_scan False fresh_backend] f
  have skip: "refresh stamps_agree copy_scan False fresh_backend = (False, fresh_backend)"
    by blast
  from refresh_reports_change [of stamps_agree copy_scan True fresh_backend] fi
  have same: "\<not> fst (refresh stamps_agree copy_scan True fresh_backend)"
    by simp
  from refresh_reports_change [of stamps_agree copy_scan True stale_backend] si
  have forced: "index (snd (refresh stamps_agree copy_scan True stale_backend))
       = copy_scan (storage stale_backend)"
    "index (snd (refresh stamps_agree copy_scan True stale_backend)) \<noteq> index stale_backend"
    "fst (refresh stamps_agree copy_scan True stale_backend)"
    by simp_all
  from f skip same forced show ?thesis by blast
qed

section \<open>Resolution of partial digests\<close>

lemma set_scan_prefix: "set (scan_prefix p keys) = matching keys p"
  by (induction keys) (auto simp: matching_def)

lemma remdups_eq_single:
  assumes "set xs = {d}"
  shows "remdups xs = [d]"
proof -
  have "distinct (remdups xs)" and "set (remdups xs) = {d}"
    using assms by simp_all
  then show ?thesis
    by (cases "remdups xs") (auto simp: distinct_length_2_or_more dest!: subset_singletonD)
qed

lemma resolve_none:
  "matching keys p = {} \<Longrightarrow> resolve_partial_hex keys p = Inl BadObject"
  by (simp add: resolve_partial_hex_def flip: set_scan_prefix)

lemma resolve_one:
  "matching keys p = {d} \<Longrightarrow> resolve_partial_hex keys p = Inr d"
  by (simp add: resolve_partial_hex_def remdups_eq_single flip: set_scan_prefix)

lemma resolve_many:
  assumes "2 \<le> card (matching keys p)"
  shows "resolve_partial_hex keys p = Inl AmbiguousObjectName"
proof -
  have "length (remdups (scan_prefix p keys)) = card (matching keys p)"
    by (simp add: length_remdups_card_conv set_scan_prefix)
  with assms have "2 \<le> length (remdups (scan_prefix p keys))" by simp
  then obtain d d' ds where "remdups (scan_prefix p keys) = d # d' # ds"
    by (auto simp: Suc_le_length_iff numeral_2_eq_2)
  then show ?thesis by (simp add: resolve_partial_hex_def)
qed

lemma resolve_Inr:
  assumes "resolve_partial_hex keys p = Inr d"
  shows "matching keys p = {d}"
proof -
  from assms have "remdups (scan_prefix p keys) = [d]"
    by (auto simp: resolve_partial_hex_def split: list.splits)
  then have "set (remdups (scan_prefix p keys)) = {d}" by simp
  then show ?thesis by (simp add: set_scan_prefix)
qed

lemma hex_samples:
  "bin_to_hex sha_abcd = ''abcd000000000000000000000000000000000000''"
  "bin_to_hex sha_abce = ''abce000000000000000000000000000000000001''"
  "bin_to_hex sha_1234 = ''1234000000000000000000000000000000000002''"
  by (simp_all add: sha_abcd_def sha_abce_def sha_1234_def bin_to_hex_def hex_digits_def)

lemma hex_partials:
  "take 2 (bin_to_hex [0xff]) = ''ff''"
  "take 4 (bin_to_hex [0xab, 0xcd]) = ''abcd''"
  "take 3 (bin_to_hex [0xab, 0xc0]) = ''abc''"
  by (simp_all add: bin_to_hex_def hex_digits_def)

lemma matching_samples:
  "matching sample_keys ''ff'' = {}"
  "matching sample_keys ''abcd'' = {sha_abcd}"
  "matching sample_keys ''abc'' = {sha_abcd, sha_abce}"
  by (simp_all add: sample_keys_def hex_samples flip: set_scan_prefix)

lemma samples_distinct: "sha_abcd \<noteq> sha_abce"
  by (simp add: sha_abcd_def sha_abce_def)

text \<open>
  Claim C2. Against the key space of a backend, the resolution of a hexadecimal prefix
  returns the digest when exactly one digest has the prefix, fails with \<open>BadObject\<close> when
  none has it and fails with \<open>AmbiguousObjectName\<close> when two or more digests share it; a
  digest is returned only if it is the single match. The same holds for a binary partial
  digest given with its hexadecimal length.
\<close>

theorem resolve_partial_outcomes:
  "(matching keys p = {} \<longrightarrow> resolve_partial_hex keys p = Inl BadObject) \<and>
   (\<forall>d. matching keys p = {d} \<longrightarrow> resolve_partial_hex keys p = Inr d) \<and>
   (2 \<le> card (matching keys p) \<longrightarrow> resolve_partial_hex keys p = Inl AmbiguousObjectName) \<and>
   (\<forall>d. resolve_partial_hex keys p = Inr d \<longrightarrow> matching keys p = {d}) \<and>
   (matching keys (take n (bin_to_hex b)) = {} \<longrightarrow> resolve_partial keys b n = Inl BadObject) \<and>
   (\<forall>d. matching keys (take n (bin_to_hex b)) = {d} \<longrightarrow> resolve_partial keys b n = Inr d) \<and>
   (2 \<le> card (matching keys (take n (bin_to_hex b))) \<longrightarrow>
      resolve_partial keys b n = Inl AmbiguousObjectName) \<and>
   (\<forall>d. resolve_partial keys b n = Inr d \<longrightarrow> matching keys (take n (bin_to_hex b)) = {d})"
  unfolding resolve_partial_def
  using resolve_none resolve_one resolve_many resolve_Inr by blast

theorem resolve_partial_outcomes_witness:
  "matching sample_keys ''ff'' = {} \<and>
   resolve_partial_hex sample_keys ''ff'' = Inl BadObject \<and>
   resolve_partial sample_keys [0xff] 2 = Inl BadObject \<and>
   matching sample_keys ''abcd'' = {sha_abcd} \<and>
   resolve_partial_hex sample_keys ''abcd'' = Inr sha_abcd \<and>
   resolve_partial sample_keys [0xab, 0xcd] 4 = Inr sha_abcd \<and>
   2 \<le> card (matching sample_keys ''abc'') \<and>
   resolve_partial_hex sample_keys ''abc'' = Inl AmbiguousObjectName \<and>
   resolve_partial sample_keys [0xab, 0xc0] 3 = Inl AmbiguousObjectName"
proof -
  have m0: "matching sample_keys ''ff'' = {}"
    and m1: "matching sample_keys ''abcd'' = {sha_abcd}"
    and m2: "2 \<le> card (matching sample_keys ''abc'')"
    by (simp_all add: matching_samples samples_distinct)
  have b0: "matching sample_keys (take 2 (bin_to_hex [0xff])) = {}"
    and b1: "matching sample_keys (take 4 (bin_to_hex [0xab, 0xcd])) = {sha_abcd}"
    and b2: "2 \<le> card (matching sample_keys (take 3 (bin_to_hex [0xab, 0xc0])))"
    unfolding hex_partials using m0 m1 m2 by blast+
  from resolve_partial_outcomes [of sample_keys "''ff''" 2 "[0xff]"] m0 b0
  have r0: "resolve_partial_hex sample_keys ''ff'' = Inl BadObject"
    "resolve_partial sample_keys [0xff] 2 = Inl BadObject"
    by blast+
  from resolve_partial_outcomes [of sample_keys "''abcd''" 4 "[0xab, 0xcd]"] m1 b1
  have r1: "resolve_partial_hex sample_keys ''abcd'' = Inr sha_abcd"
    "resolve_partial sample_keys [0xab, 0xcd] 4 = Inr sha_abcd"
    by blast+
  from resolve_partial_outcomes [of sample_keys "''abc''" 3 "[0xab, 0xc0]"] m2 b2
  have r2: "resolve_partial_hex sample_keys ''abc'' = Inl AmbiguousObjectName"
    "resolve_partial sample_keys [0xab, 0xc0] 3 = Inl AmbiguousObjectName"
    by blast+
  from m0 m1 m2 r0 r1 r2 show ?thesis by blast
qed

section \<open>Installing an output sink\<close>

text \<open>
  Claim C6. Installing a sink that lacks the \<open>write\<close> capability fails with
  \<open>CapabilityError\<close>, whatever sink is installed at the time; a sink that has it is
  accepted, becomes the installed sink, and the previously installed sink, or the sentinel
  for the default of the backend, is returned.
\<close>

theorem set_output_sink_capability:
  "(''write'' \<notin> set (operations s) \<longrightarrow>
      set_output_sink installed (Some s) = Inl CapabilityError) \<and>
   (''write'' \<in> set (operations s) \<longrightarrow>
      set_output_sink installed (Some s) = Inr (installed, Some s))"
  by (simp add: set_output_sink_def)

theorem set_output_sink_capability_witness:
  "''write'' \<notin> set (operations read_only_sink) \<and>
   set_output_sink None (Some read_only_sink) = Inl CapabilityError \<and>
   set_output_sink (Some file_sink) (Some read_only_sink) = Inl CapabilityError \<and>
   ''write'' \<in> set (operations file_sink) \<and>
   set_output_sink None (Some file_sink) = Inr (None, Some file_sink) \<and>
   set_output_sink (Some file_sink) (Some file_sink) = Inr (Some file_sink, Some file_sink)"
proof -
  have n: "''write'' \<notin> set (operations read_only_sink)"
    by (simp add: read_only_sink_def)
  have y: "''write'' \<in> set (operations file_sink)"
    by (simp add: file_sink_def)
  from n y
    set_output_sink_capability [of read_only_sink None]
    set_output_sink_capability [of read_only_sink "Some file_sink"]
    set_output_sink_capability [of file_sink None]
    set_output_sink_capability [of file_sink "Some file_sink"]
  show ?thesis by blast
qed

end
